theory Spec2Isabelle
  imports Main
begin

section \<open>Values and errors\<close>

text \<open>
  Instants (pendulum \<open>Date\<close>/\<open>DateTime\<close>) are integers on one time line and durations
  (pendulum \<open>Duration\<close>/\<open>Period\<close>) are integer differences of instants, so that
  \<open>start + duration\<close> and \<open>end - start\<close> are integer addition and subtraction and
  \<open>Duration()\<close> is \<open>0\<close>. A date property (\<open>DTStart\<close>, \<open>DTEnd\<close>, \<open>Due\<close>: the
  class \<open>_DTBoth\<close>) is an object that carries its instant in \<open>datetime_or_date_value\<close>.
\<close>

type_synonym instant = int
type_synonym duration = int
type_synonym addr = nat

datatype dt = DT (datetime_or_date_value: instant)

text \<open>
  The exceptions of the code. \<open>UnresolvedTimespan\<close> is named by the error taxonomy of the
  specification only; nothing under src raises it. \<open>OutsideModel\<close> is no exception of
  Python: it marks a read that leaves the objects modelled here (an occurrence whose
  \<open>_original\<close> is not a component of the store).
\<close>

datatype error =
    MissingRequiredProperty string
  | ValueError
  | AttributeError string
  | TypeError
  | IndexError
  | UnresolvedTimespan
  | OutsideModel

text \<open>
  The values an attribute can hold: \<open>None\<close>, an instant, a duration, a text, a list of
  texts or of instants, a date property, a reference to an object of the store, and a
  \<open>TimespanWithParent\<close> given by its parent, begin and end.
\<close>

datatype val =
    VNone
  | VInstant instant
  | VDuration duration
  | VStr string
  | VStrs "string list"
  | VInstants "instant list"
  | VDt dt
  | VRef addr
  | VTimespan addr val val

section \<open>AbstractComponentWithDuration\<close>

datatype kind = VEvent | VToDo | VJournal

text \<open>
  The fields set by \<open>AbstractComponentWithDuration.__init__\<close>; \<open>u_dtstamp\<close>, \<open>u_uid\<close>,
  \<open>u_name\<close> and \<open>u_parent\<close> are the attributes \<open>_dtstamp\<close>, \<open>_uid\<close>, \<open>_name\<close> and
  \<open>_parent\<close>. The parent is the address of the enclosing component.
  \<open>property_ical_names\<close> is what \<open>get_property_ical_names()\<close> returns for the object;
  that method belongs to \<open>Component\<close>, which is not among the sources, so its result is
  carried as data. \<open>other_attributes\<close> holds the instance attributes that the classes
  outside the sources set (\<open>_extra_child_components\<close>, \<open>_extra_properties\<close>) and the
  fields of the concrete class.

  Modelled from the spec: the classes of events and to-dos are not among the sources.
  The fields \<open>dtend\<close>, \<open>due\<close> and \<open>duration_prop\<close> are the explicit end instant of an
  event, the due instant of a to-do and the explicit duration property of either.
\<close>

record component =
  kind :: kind
  u_name :: string
  u_parent :: "addr option"
  u_dtstamp :: "string option"
  u_uid :: "string option"
  dtstart :: "dt option"
  rrule :: "string option"
  summary :: "string option"
  exdate :: "instant list option"
  rdate :: "instant list option"
  comment :: "string list option"
  dtend :: "dt option"
  due :: "dt option"
  duration_prop :: "duration option"
  other_attributes :: "string \<rightharpoonup> val"
  property_ical_names :: "string list"

definition dtstamp :: "component \<Rightarrow> error + string" where
  "dtstamp self =
     (case u_dtstamp self of
        None \<Rightarrow> Inl (MissingRequiredProperty ''dtstamp'')
      | Some v \<Rightarrow> Inr v)"

definition uid :: "component \<Rightarrow> error + string" where
  "uid self =
     (case u_uid self of
        None \<Rightarrow> Inl (MissingRequiredProperty ''uid'')
      | Some v \<Rightarrow> Inr v)"

text \<open>\<open>VJournal.ending\<close> and \<open>VJournal.get_duration\<close>, as in v_journal.py.\<close>

definition VJournal_ending :: "component \<Rightarrow> dt option" where
  "VJournal_ending self = dtstart self"

definition VJournal_get_duration :: "component \<Rightarrow> duration option" where
  "VJournal_get_duration self = Some 0"

text \<open>
  Modelled from the spec: the \<open>ending\<close> and \<open>get_duration\<close> methods of events and to-dos,
  whose classes are not among the sources. The ending of an event is its explicit end
  property, that of a to-do its due property; the duration of either is the explicit
  duration property if set, else null.
\<close>

definition VEvent_ending :: "component \<Rightarrow> dt option" where
  "VEvent_ending self = dtend self"

definition VToDo_ending :: "component \<Rightarrow> dt option" where
  "VToDo_ending self = due self"

definition VEvent_get_duration :: "component \<Rightarrow> duration option" where
  "VEvent_get_duration self = duration_prop self"

text \<open>The abstract methods, resolved by the class of the object.\<close>

definition ending :: "component \<Rightarrow> dt option" where
  "ending self =
     (case kind self of
        VEvent \<Rightarrow> VEvent_ending self
      | VToDo \<Rightarrow> VToDo_ending self
      | VJournal \<Rightarrow> VJournal_ending self)"

definition get_duration :: "component \<Rightarrow> duration option" where
  "get_duration self =
     (case kind self of
        VEvent \<Rightarrow> VEvent_get_duration self
      | VToDo \<Rightarrow> VEvent_get_duration self
      | VJournal \<Rightarrow> VJournal_get_duration self)"

text \<open>
  Python's truth test, where the code applies it: a property object and an instant are
  true unless they are \<open>None\<close>; a duration is true unless it is \<open>None\<close> or zero
  (\<open>timedelta.__bool__\<close>).
\<close>

definition truthy_duration :: "duration option \<Rightarrow> bool" where
  "truthy_duration d = (case d of None \<Rightarrow> False | Some x \<Rightarrow> x \<noteq> 0)"

definition start :: "component \<Rightarrow> instant option" where
  "start self =
     (case dtstart self of
        Some p \<Rightarrow> Some (datetime_or_date_value p)
      | None \<Rightarrow> None)"

definition end_value :: "component \<Rightarrow> instant option" where
  "end_value self =
     (case ending self of
        Some e \<Rightarrow> Some (datetime_or_date_value e)
      | None \<Rightarrow>
          (if start self \<noteq> None \<and> truthy_duration (get_duration self)
           then Some (the (start self) + the (get_duration self))
           else None))"

definition computed_duration :: "component \<Rightarrow> duration option" where
  "computed_duration self =
     (if truthy_duration (get_duration self) then get_duration self
      else if end_value self \<noteq> None \<and> start self \<noteq> None
           then Some (the (end_value self) - the (start self))
      else None)"

text \<open>\<open>TimespanWithParent(parent=self, begin=self.start, end=self.end)\<close>.\<close>

record timespan_with_parent =
  ts_parent :: addr
  ts_begin :: instant
  ts_end :: instant

definition timespan :: "addr \<Rightarrow> component \<Rightarrow> error + timespan_with_parent" where
  "timespan a self =
     (if start self = None \<or> end_value self = None then Inl ValueError
      else Inr \<lparr>ts_parent = a, ts_begin = the (start self), ts_end = the (end_value self)\<rparr>)"

text \<open>
  \<open>__init__\<close> with its defaults: every optional argument is \<open>None\<close>. The list of
  property names is that of the constructor's property arguments.
\<close>

definition init_component :: "kind \<Rightarrow> string \<Rightarrow> component" where
  "init_component k n =
     \<lparr>kind = k, u_name = n, u_parent = None, u_dtstamp = None, u_uid = None,
      dtstart = None, rrule = None, summary = None, exdate = None, rdate = None,
      comment = None, dtend = None, due = None, duration_prop = None,
      other_attributes = Map.empty,
      property_ical_names =
        [''dtstamp'', ''uid'', ''dtstart'', ''rrule'', ''summary'', ''exdate'', ''rdate'',
         ''comment'']\<rparr>"

text \<open>Concrete components used as inputs below.\<close>

definition journal_plain :: component where
  "journal_plain = init_component VJournal ''VJOURNAL''"

definition journal_at_10 :: component where
  "journal_at_10 =
     (init_component VJournal ''VJOURNAL'')
       \<lparr>u_dtstamp := Some ''20240101T000000Z'', u_uid := Some ''j-1'',
        dtstart := Some (DT 10), summary := Some ''diary''\<rparr>"

definition event_zero_duration :: component where
  "event_zero_duration =
     (init_component VEvent ''VEVENT'')\<lparr>dtstart := Some (DT 10), duration_prop := Some 0\<rparr>"

definition event_with_duration :: component where
  "event_with_duration =
     (init_component VEvent ''VEVENT'')\<lparr>dtstart := Some (DT 10), duration_prop := Some 5\<rparr>"

definition event_end_and_duration :: component where
  "event_end_and_duration =
     (init_component VEvent ''VEVENT'')
       \<lparr>dtstart := Some (DT 10), dtend := Some (DT 20), duration_prop := Some 5\<rparr>"

section \<open>Property.sub_properties\<close>

text \<open>
  \<open>str.split(sep)\<close> and \<open>str.count(sep)\<close> for a separator of one character, list
  indexing that raises \<open>IndexError\<close> out of range, and the dictionary comprehension of
  \<open>sub_properties\<close>, which stores the pairs in the order of the tokens so that a later
  token overwrites an earlier one with the same key. The fields of a \<open>Property\<close> are
  \<open>_parent\<close>, \<open>_name\<close>, \<open>_sub_properties\<close> and \<open>_value\<close>; \<open>x or ""\<close> replaces
  \<open>None\<close> (and the empty string) by the empty string.
\<close>

fun str_split :: "char \<Rightarrow> string \<Rightarrow> string list" where
  "str_split sep [] = [[]]"
| "str_split sep (c # cs) =
     (if c = sep then [] # str_split sep cs
      else (case str_split sep cs of
              [] \<Rightarrow> [[c]]
            | t # ts \<Rightarrow> (c # t) # ts))"

definition str_count :: "char \<Rightarrow> string \<Rightarrow> nat" where
  "str_count sep s = length (filter (\<lambda>c. c = sep) s)"

definition getitem :: "'a list \<Rightarrow> nat \<Rightarrow> error + 'a" where
  "getitem xs i = (if i < length xs then Inr (xs ! i) else Inl IndexError)"

fun dict_comprehension :: "string list \<Rightarrow> (string \<rightharpoonup> string) \<Rightarrow> error + (string \<rightharpoonup> string)" where
  "dict_comprehension [] d = Inr d"
| "dict_comprehension (key_and_value # rest) d =
     (if str_count CHR ''='' key_and_value = 1
      then (case getitem (str_split CHR ''='' key_and_value) 0 of
              Inl e \<Rightarrow> Inl e
            | Inr k \<Rightarrow>
               (case getitem (str_split CHR ''='' key_and_value) 1 of
                  Inl e \<Rightarrow> Inl e
                | Inr v \<Rightarrow> dict_comprehension rest (d(k \<mapsto> v))))
      else dict_comprehension rest d)"

record property =
  prop_parent :: addr
  prop_name :: string
  prop_sub_properties :: "string option"
  prop_value :: "string option"

definition sub_properties :: "property \<Rightarrow> error + (string \<rightharpoonup> string)" where
  "sub_properties self =
     (let sub_properties_str =
            (case prop_sub_properties self of None \<Rightarrow> [] | Some s \<Rightarrow> s)
      in dict_comprehension (str_split CHR '';'' sub_properties_str) Map.empty)"

text \<open>
  The dictionary in the words of the specification: the key of a token is what precedes
  its \<open>=\<close>, the value what follows it; a key is bound if some token with exactly one
  \<open>=\<close> has it, to the value of the last such token.
\<close>

definition key_of :: "string \<Rightarrow> string" where
  "key_of t = takeWhile (\<lambda>c. c \<noteq> CHR ''='') t"

definition value_of :: "string \<Rightarrow> string" where
  "value_of t = drop (Suc (length (key_of t))) t"

definition tokens_of :: "string option \<Rightarrow> string list" where
  "tokens_of s = str_split CHR '';'' (case s of None \<Rightarrow> [] | Some x \<Rightarrow> x)"

definition spec_sub_properties :: "string list \<Rightarrow> (string \<rightharpoonup> string)" where
  "spec_sub_properties toks k =
     (case filter (\<lambda>t. str_count CHR ''='' t = 1 \<and> key_of t = k) toks of
        [] \<Rightarrow> None
      | ts \<Rightarrow> Some (value_of (last ts)))"

definition property_none :: property where
  "property_none = \<lparr>prop_parent = 0, prop_name = ''DTSTART'', prop_sub_properties = None,
     prop_value = Some ''20240101''\<rparr>"

definition property_mixed :: property where
  "property_mixed = \<lparr>prop_parent = 0, prop_name = ''ATTENDEE'',
     prop_sub_properties = Some ''a=b;c;d=e=f;;a=h'', prop_value = None\<rparr>"

section \<open>Objects and the store\<close>

text \<open>
  An object is a component with the fields above, or an occurrence: an instance of
  \<open>VRecurringJournal\<close>, the one recurring class among the sources, given by its instance
  dictionary. The store lists the objects; an address is an index into it. The class of a
  component is that of its kind.
\<close>

datatype obj = Component component | Recurring "string \<rightharpoonup> val"

type_synonym heap = "obj list"

datatype pyclass = ClassOf kind | VRecurringJournal

definition type_of :: "obj \<Rightarrow> pyclass" where
  "type_of x = (case x of Component c \<Rightarrow> ClassOf (kind c) | Recurring d \<Rightarrow> VRecurringJournal)"

definition opt_val :: "('a \<Rightarrow> val) \<Rightarrow> 'a option \<Rightarrow> val" where
  "opt_val f x = (case x of None \<Rightarrow> VNone | Some v \<Rightarrow> f v)"

definition instance_dict :: "(string \<rightharpoonup> val) \<Rightarrow> string \<Rightarrow> error + val" where
  "instance_dict d name =
     (case d name of Some v \<Rightarrow> Inr v | None \<Rightarrow> Inl (AttributeError name))"

text \<open>
  \<open>object.__getattribute__(c, name)\<close> for a component \<open>c\<close> at address \<open>a\<close>: the
  properties of the class come first, then the instance attributes.

  Modelled from the spec: the \<open>parent\<close> property of \<open>Component\<close>, which is not among the
  sources, returns the enclosing component; \<open>dtend\<close>, \<open>due\<close> and \<open>duration\<close> are the
  instance attributes of events and to-dos that hold their end, due and duration
  properties.
\<close>

definition component_dict :: "component \<Rightarrow> string \<rightharpoonup> val" where
  "component_dict self name =
     (if name = ''_name'' then Some (VStr (u_name self))
      else if name = ''_parent'' then Some (opt_val VRef (u_parent self))
      else if name = ''_dtstamp'' then Some (opt_val VStr (u_dtstamp self))
      else if name = ''_uid'' then Some (opt_val VStr (u_uid self))
      else if name = ''dtstart'' then Some (opt_val VDt (dtstart self))
      else if name = ''rrule'' then Some (opt_val VStr (rrule self))
      else if name = ''summary'' then Some (opt_val VStr (summary self))
      else if name = ''exdate'' then Some (opt_val VInstants (exdate self))
      else if name = ''rdate'' then Some (opt_val VInstants (rdate self))
      else if name = ''comment'' then Some (opt_val VStrs (comment self))
      else if name = ''dtend'' \<and> kind self = VEvent then Some (opt_val VDt (dtend self))
      else if name = ''due'' \<and> kind self = VToDo then Some (opt_val VDt (due self))
      else if name = ''duration'' \<and> kind self \<noteq> VJournal
        then Some (opt_val VDuration (duration_prop self))
      else other_attributes self name)"

definition component_getattribute :: "addr \<Rightarrow> component \<Rightarrow> string \<Rightarrow> error + val" where
  "component_getattribute a self name =
     (if name = ''dtstamp'' then map_sum id VStr (dtstamp self)
      else if name = ''uid'' then map_sum id VStr (uid self)
      else if name = ''ending'' then Inr (opt_val VDt (ending self))
      else if name = ''timespan''
        then map_sum id (\<lambda>t. VTimespan (ts_parent t) (VInstant (ts_begin t)) (VInstant (ts_end t)))
               (timespan a self)
      else if name = ''start'' then Inr (opt_val VInstant (start self))
      else if name = ''end'' then Inr (opt_val VInstant (end_value self))
      else if name = ''computed_duration'' then Inr (opt_val VDuration (computed_duration self))
      else if name = ''parent'' then Inr (opt_val VRef (u_parent self))
      else instance_dict (component_dict self) name)"

section \<open>AbstractRecurringComponentWithDuration\<close>

text \<open>
  \<open>self._original\<close> of an occurrence with dictionary \<open>d\<close>, as the object of which the
  code goes on to read the attribute \<open>asked\<close>. A value that is no object has none of the
  attributes asked for, so that read raises \<open>AttributeError\<close>.
\<close>

definition the_original ::
  "heap \<Rightarrow> (string \<rightharpoonup> val) \<Rightarrow> string \<Rightarrow> error + (addr \<times> component)" where
  "the_original h d asked =
     (case d ''_original'' of
        None \<Rightarrow> Inl (AttributeError ''_original'')
      | Some (VRef m) \<Rightarrow>
          (if m < length h
           then (case h ! m of Component c \<Rightarrow> Inr (m, c) | Recurring r \<Rightarrow> Inl OutsideModel)
           else Inl OutsideModel)
      | Some v \<Rightarrow> Inl (AttributeError asked))"

text \<open>
  \<open>__getattribute__\<close>, with \<open>object.__getattribute__(self, name)\<close> passed as \<open>own\<close>.
\<close>

definition getattribute_with ::
  "(string \<Rightarrow> error + val) \<Rightarrow> heap \<Rightarrow> (string \<rightharpoonup> val) \<Rightarrow> string \<Rightarrow> error + val" where
  "getattribute_with own h d name =
     (if name \<in> set [''_start'', ''_end'', ''_original'', ''_parent'',
                      ''start'', ''end'', ''original'', ''parent'']
      then own name
      else if name \<in> set [''_name'', ''_extra_child_components'', ''_extra_properties'']
      then (case the_original h d name of
              Inl e \<Rightarrow> Inl e
            | Inr (m, c) \<Rightarrow> component_getattribute m c name)
      else (case the_original h d ''get_property_ical_names'' of
              Inl e \<Rightarrow> Inl e
            | Inr (m, c) \<Rightarrow>
                if name \<in> set (property_ical_names c) then component_getattribute m c name
                else own name))"

text \<open>
  A read \<open>self.name\<close> inside a property body, for a name that the class does not
  define: \<open>object.__getattribute__(self, name)\<close> is then the instance dictionary.
\<close>

definition read_field :: "heap \<Rightarrow> (string \<rightharpoonup> val) \<Rightarrow> string \<Rightarrow> error + val" where
  "read_field h d name = getattribute_with (instance_dict d) h d name"

text \<open>Python's truth test and subtraction on the values of the model.\<close>

definition truthy :: "val \<Rightarrow> bool" where
  "truthy v =
     (case v of
        VNone \<Rightarrow> False
      | VDuration x \<Rightarrow> x \<noteq> 0
      | VStr s \<Rightarrow> s \<noteq> []
      | VStrs l \<Rightarrow> l \<noteq> []
      | VInstants l \<Rightarrow> l \<noteq> []
      | _ \<Rightarrow> True)"

definition val_sub :: "val \<Rightarrow> val \<Rightarrow> error + val" where
  "val_sub x y =
     (case (x, y) of
        (VInstant e, VInstant s) \<Rightarrow> Inr (VDuration (e - s))
      | (VInstant e, VDuration k) \<Rightarrow> Inr (VInstant (e - k))
      | (VDuration e, VDuration k) \<Rightarrow> Inr (VDuration (e - k))
      | _ \<Rightarrow> Inl TypeError)"

text \<open>
  \<open>object.__getattribute__(self, name)\<close> for an occurrence at address \<open>a\<close>: the
  properties that the recurring class and its bases define, evaluated on the occurrence,
  then the instance dictionary. The occurrence is a journal, so its \<open>ending\<close> is
  \<open>self.dtstart\<close>.
\<close>

definition required_field :: "heap \<Rightarrow> (string \<rightharpoonup> val) \<Rightarrow> string \<Rightarrow> string \<Rightarrow> error + val" where
  "required_field h d field name =
     (case read_field h d field of
        Inl e \<Rightarrow> Inl e
      | Inr v \<Rightarrow> if v = VNone then Inl (MissingRequiredProperty name) else Inr v)"

text \<open>
  \<open>timespan\<close> on an occurrence; \<open>self.start\<close> and \<open>self.end\<close> are \<open>_start\<close> and \<open>_end\<close>
  of the instance dictionary. The message of the \<open>ValueError\<close> reads both.
\<close>

definition recurring_timespan :: "addr \<Rightarrow> (string \<rightharpoonup> val) \<Rightarrow> error + val" where
  "recurring_timespan a d =
     (case instance_dict d ''_start'' of
        Inl x \<Rightarrow> Inl x
      | Inr s \<Rightarrow>
          (case instance_dict d ''_end'' of
             Inl x \<Rightarrow> Inl x
           | Inr e \<Rightarrow>
               if s = VNone \<or> e = VNone then Inl ValueError else Inr (VTimespan a s e)))"

text \<open>
  The call \<open>self.get_duration()\<close> on an occurrence: the name goes through
  \<open>__getattribute__\<close>, which forwards it to the original if it is one of the original's
  property names; otherwise an instance attribute of that name shadows the method (and
  no value of the model can be called), and the method of the journal class returns the
  zero duration.
\<close>

definition recurring_get_duration ::
  "heap \<Rightarrow> (string \<rightharpoonup> val) \<Rightarrow> error + duration option" where
  "recurring_get_duration h d =
     (case the_original h d ''get_property_ical_names'' of
        Inl x \<Rightarrow> Inl x
      | Inr (m, c) \<Rightarrow>
          if ''get_duration'' \<in> set (property_ical_names c) then Inr (get_duration c)
          else if d ''get_duration'' \<noteq> None then Inl TypeError
          else Inr (VJournal_get_duration c))"

definition recurring_computed_duration :: "heap \<Rightarrow> (string \<rightharpoonup> val) \<Rightarrow> error + val" where
  "recurring_computed_duration h d =
     (case recurring_get_duration h d of
        Inl x \<Rightarrow> Inl x
      | Inr a_duration \<Rightarrow>
          if truthy_duration a_duration then Inr (opt_val VDuration a_duration)
          else (case instance_dict d ''_end'' of
                  Inl x \<Rightarrow> Inl x
                | Inr e \<Rightarrow>
                    if \<not> truthy e then Inr VNone
                    else (case instance_dict d ''_start'' of
                            Inl x \<Rightarrow> Inl x
                          | Inr s \<Rightarrow> if \<not> truthy s then Inr VNone else val_sub e s)))"

definition object_getattribute ::
  "heap \<Rightarrow> addr \<Rightarrow> (string \<rightharpoonup> val) \<Rightarrow> string \<Rightarrow> error + val" where
  "object_getattribute h a d name =
     (if name = ''start'' then instance_dict d ''_start''
      else if name = ''end'' then instance_dict d ''_end''
      else if name = ''original'' then instance_dict d ''_original''
      else if name = ''parent''
        then (case the_original h d ''parent'' of
                Inl e \<Rightarrow> Inl e
              | Inr (m, c) \<Rightarrow> component_getattribute m c ''parent'')
      else if name = ''dtstamp'' then required_field h d ''_dtstamp'' ''dtstamp''
      else if name = ''uid'' then required_field h d ''_uid'' ''uid''
      else if name = ''ending'' then read_field h d ''dtstart''
      else if name = ''timespan'' then recurring_timespan a d
      else if name = ''computed_duration'' then recurring_computed_duration h d
      else instance_dict d name)"

definition getattribute :: "heap \<Rightarrow> addr \<Rightarrow> (string \<rightharpoonup> val) \<Rightarrow> string \<Rightarrow> error + val" where
  "getattribute h a d name = getattribute_with (object_getattribute h a d) h d name"

text \<open>The attribute read \<open>x.name\<close> for the object at address \<open>a\<close>.\<close>

definition getattr :: "heap \<Rightarrow> addr \<Rightarrow> string \<Rightarrow> error + val" where
  "getattr h a name =
     (if a < length h
      then (case h ! a of
              Component c \<Rightarrow> component_getattribute a c name
            | Recurring d \<Rightarrow> getattribute h a d name)
      else Inl OutsideModel)"

text \<open>
  \<open>__setattr__\<close> of an occurrence, which is \<open>object.__setattr__\<close>: a property of the
  class takes the write, through its setter (\<open>dtstamp\<close>, \<open>uid\<close>) or, having none, by
  raising \<open>AttributeError\<close>; any other key is stored in the instance dictionary.
  Only the object written to changes in the store. The \<open>__setattr__\<close> of a component is
  that of \<open>Component\<close>, which is not among the sources; a write on a component is
  \<open>OutsideModel\<close>.
\<close>

definition setattr_dict :: "(string \<rightharpoonup> val) \<Rightarrow> string \<Rightarrow> val \<Rightarrow> error + (string \<rightharpoonup> val)" where
  "setattr_dict d key v =
     (if key \<in> set [''start'', ''end'', ''original'', ''parent'', ''ending'', ''timespan'',
                     ''computed_duration'']
      then Inl (AttributeError key)
      else if key = ''dtstamp'' then Inr (d(''_dtstamp'' \<mapsto> v))
      else if key = ''uid'' then Inr (d(''_uid'' \<mapsto> v))
      else Inr (d(key \<mapsto> v)))"

definition setattr :: "heap \<Rightarrow> addr \<Rightarrow> string \<Rightarrow> val \<Rightarrow> error + heap" where
  "setattr h a key v =
     (if a < length h
      then (case h ! a of
              Recurring d \<Rightarrow>
                (case setattr_dict d key v of
                   Inl e \<Rightarrow> Inl e
                 | Inr d' \<Rightarrow> Inr (h[a := Recurring d']))
            | Component c \<Rightarrow> Inl OutsideModel)
      else Inl OutsideModel)"

section \<open>Equality\<close>

text \<open>
  \<open>__eq__\<close>: the classes are compared first; then the four attributes are read on both
  objects and compared from left to right, \<open>and\<close> stopping at the first that differs.

  Modelled from the spec: the equality of two property values is not among the sources;
  it is the equality of their contents, independent of object identity.
\<close>

definition attr_eq :: "heap \<Rightarrow> addr \<Rightarrow> addr \<Rightarrow> string \<Rightarrow> error + bool" where
  "attr_eq h self other name =
     (case getattr h self name of
        Inl e \<Rightarrow> Inl e
      | Inr v \<Rightarrow> (case getattr h other name of Inl e \<Rightarrow> Inl e | Inr w \<Rightarrow> Inr (v = w)))"

definition and_then :: "error + bool \<Rightarrow> error + bool \<Rightarrow> error + bool" where
  "and_then x y = (case x of Inl e \<Rightarrow> Inl e | Inr b \<Rightarrow> if b then y else Inr False)"

definition eq :: "heap \<Rightarrow> addr \<Rightarrow> addr \<Rightarrow> error + bool" where
  "eq h self other =
     (if \<not> (self < length h \<and> other < length h) then Inl OutsideModel
      else if type_of (h ! self) \<noteq> type_of (h ! other) then Inr False
      else and_then (attr_eq h self other ''dtstart'')
             (and_then (attr_eq h self other ''ending'')
                (and_then (attr_eq h self other ''summary'')
                   (attr_eq h self other ''comment''))))"

section \<open>VJournal.expand_component_in_range\<close>

text \<open>
  The constructor of \<open>VRecurringJournal\<close>. \<open>base\<close> is the instance dictionary that
  \<open>super(VJournal, self).__init__()\<close> leaves; the classes it runs are not among the
  sources.
\<close>

definition VRecurringJournal_init ::
  "(string \<rightharpoonup> val) \<Rightarrow> addr \<Rightarrow> instant \<Rightarrow> instant \<Rightarrow> (string \<rightharpoonup> val)" where
  "VRecurringJournal_init base original_component_instance start_time end_time =
     base(''_parent'' \<mapsto> VRef original_component_instance,
          ''_original'' \<mapsto> VRef original_component_instance,
          ''_start'' \<mapsto> VInstant start_time,
          ''_end'' \<mapsto> VInstant end_time)"

text \<open>
  \<open>property_utils.expand_component_in_range\<close> is not among the sources; it is the
  parameter \<open>pu\<close>, a function of the exclusion dates, the addition dates, the rule, the
  first start, the first duration and the range (\<open>make_tz_aware\<close> is always \<open>None\<close>),
  that gives the pairs of start and end, finitely many. The generator is the list of the
  objects it yields, in order: the component itself first, before \<open>pu\<close> is called, then
  one new occurrence per pair, allocated at the end of the store.
\<close>

type_synonym expander =
  "instant list \<Rightarrow> instant list \<Rightarrow> string option \<Rightarrow> instant option \<Rightarrow> duration option
     \<Rightarrow> instant \<times> instant \<Rightarrow> (instant \<times> instant) list"

definition expand_component_in_range ::
  "expander \<Rightarrow> (string \<rightharpoonup> val) \<Rightarrow> heap \<Rightarrow> addr \<Rightarrow> component \<Rightarrow> instant \<times> instant
     \<Rightarrow> addr list \<times> heap" where
  "expand_component_in_range pu base h a self return_range =
     (let iterator =
            pu (case exdate self of None \<Rightarrow> [] | Some l \<Rightarrow> l)
               (case rdate self of None \<Rightarrow> [] | Some l \<Rightarrow> l)
               (rrule self) (start self) (computed_duration self) return_range;
          occurrences =
            map (\<lambda>(event_start_time, event_end_time).
                   Recurring (VRecurringJournal_init base a event_start_time event_end_time))
              iterator
      in (a # [length h ..< length h + length occurrences], h @ occurrences))"

text \<open>The pair of start and end that an emitted object shows.\<close>

definition emitted_pair :: "heap \<Rightarrow> addr \<Rightarrow> (error + val) \<times> (error + val)" where
  "emitted_pair h a = (getattr h a ''start'', getattr h a ''end'')"

section \<open>A store with one journal and two of its occurrences\<close>

definition pu_two :: expander where
  "pu_two exdate_list rdate_list rule first_event_start first_event_duration return_range =
     [(20, 20), (30, 30)]"

definition store_one :: heap where
  "store_one = [Component journal_at_10]"

definition store_three :: heap where
  "store_three =
     [Component journal_at_10,
      Recurring (VRecurringJournal_init Map.empty 0 20 20),
      Recurring (VRecurringJournal_init Map.empty 0 30 30)]"

definition occurrence_20 :: "string \<rightharpoonup> val" where
  "occurrence_20 = VRecurringJournal_init Map.empty 0 20 20"

definition store_written :: heap where
  "store_written = store_three[1 := Recurring (occurrence_20(''summary'' \<mapsto> VStr ''changed''))]"

definition store_private :: heap where
  "store_private = store_three[1 := Recurring (occurrence_20(''note'' \<mapsto> VStr ''mine''))]"

section \<open>Required properties\<close>

text \<open>
  C3: reading \<open>uid\<close> or \<open>dtstamp\<close> when the stored value is \<open>None\<close> raises
  \<open>MissingRequiredProperty\<close>; when it is set, the read returns the stored value unchanged.
\<close>

theorem required_properties:
  "(u_uid self = None \<longrightarrow> uid self = Inl (MissingRequiredProperty ''uid''))
   \<and> (u_dtstamp self = None \<longrightarrow> dtstamp self = Inl (MissingRequiredProperty ''dtstamp''))
   \<and> (\<forall>v. u_uid self = Some v \<longrightarrow> uid self = Inr v)
   \<and> (\<forall>v. u_dtstamp self = Some v \<longrightarrow> dtstamp self = Inr v)"
  by (simp add: uid_def dtstamp_def)

theorem required_properties_witness:
  "u_uid journal_plain = None \<and> u_dtstamp journal_plain = None
   \<and> uid journal_plain = Inl (MissingRequiredProperty ''uid'')
   \<and> dtstamp journal_plain = Inl (MissingRequiredProperty ''dtstamp'')
   \<and> u_uid journal_at_10 = Some ''j-1'' \<and> uid journal_at_10 = Inr ''j-1''
   \<and> u_dtstamp journal_at_10 = Some ''20240101T000000Z''
   \<and> dtstamp journal_at_10 = Inr ''20240101T000000Z''"
proof -
  have a: "u_uid journal_plain = None" "u_dtstamp journal_plain = None"
    by (simp_all add: journal_plain_def init_component_def)
  have b: "u_uid journal_at_10 = Some ''j-1''"
    "u_dtstamp journal_at_10 = Some ''20240101T000000Z''"
    by (simp_all add: journal_at_10_def)
  show ?thesis
    using a b required_properties [of journal_plain] required_properties [of journal_at_10]
    by simp
qed

section \<open>Timespan\<close>

text \<open>
  C4, as the code has it: requesting the timespan when the start or the end is \<open>None\<close>
  raises \<open>ValueError\<close>; when both are resolved, the result is the timespan with that start
  as begin, that end as end and the entity as parent.
\<close>

theorem timespan_resolved:
  "(start self = None \<or> end_value self = None \<longrightarrow> timespan a self = Inl ValueError)
   \<and> (\<forall>s e. start self = Some s \<and> end_value self = Some e \<longrightarrow>
         timespan a self = Inr \<lparr>ts_parent = a, ts_begin = s, ts_end = e\<rparr>)"
  by (auto simp: timespan_def)

lemma journal_at_10_start_end:
  "start journal_at_10 = Some 10" "end_value journal_at_10 = Some 10"
  by (simp_all add: journal_at_10_def init_component_def start_def end_value_def ending_def
      VJournal_ending_def)

lemma journal_plain_start: "start journal_plain = None"
  by (simp add: journal_plain_def init_component_def start_def)

theorem timespan_resolved_witness:
  "start journal_plain = None \<and> timespan 3 journal_plain = Inl ValueError
   \<and> start journal_at_10 = Some 10 \<and> end_value journal_at_10 = Some 10
   \<and> timespan 3 journal_at_10 = Inr \<lparr>ts_parent = 3, ts_begin = 10, ts_end = 10\<rparr>"
  using timespan_resolved [of journal_plain 3] timespan_resolved [of journal_at_10 3]
    journal_plain_start journal_at_10_start_end
  by simp

text \<open>
  The timespan of a journal without a start is refused with \<open>ValueError\<close>, which is not
  the \<open>UnresolvedTimespan\<close> error.
\<close>

theorem timespan_error_counterexample:
  "start journal_plain = None \<and> timespan 3 journal_plain \<noteq> Inl UnresolvedTimespan"
  by (simp add: timespan_def journal_plain_start)

section \<open>The derived end and the computed duration\<close>

text \<open>
  What the \<open>end\<close> property computes: the ending if there is one; otherwise the start plus
  the duration if both are set and the duration is not zero; otherwise \<open>None\<close>.
\<close>

lemma end_value_cases:
  "end_value self =
     (case ending self of
        Some e \<Rightarrow> Some (datetime_or_date_value e)
      | None \<Rightarrow>
          (case (start self, get_duration self) of
             (Some s, Some d) \<Rightarrow> if d = 0 then None else Some (s + d)
           | _ \<Rightarrow> None))"
  by (auto simp: end_value_def truthy_duration_def split: option.splits)

text \<open>
  C6 at an event with a start, no end property and the explicit duration zero: the
  ending is not resolvable, the start and the duration both are, and the derived end is
  \<open>None\<close> rather than the start plus the zero duration.
\<close>

theorem end_value_zero_duration:
  "ending event_zero_duration = None
   \<and> start event_zero_duration = Some 10
   \<and> get_duration event_zero_duration = Some 0
   \<and> end_value event_zero_duration = None"
  by (simp add: event_zero_duration_def init_component_def ending_def VEvent_ending_def
      start_def get_duration_def VEvent_get_duration_def end_value_def truthy_duration_def)

text \<open>
  C7, as the code has it: for an entity whose start and end are both resolved, the end is
  the start plus the computed duration whenever the entity has no ending of its own, or
  its explicit duration is unset or zero, or its ending is the start plus that duration.
\<close>

theorem end_is_start_plus_computed_duration:
  assumes "start self = Some s" and "end_value self = Some e"
    and "ending self = None \<or> \<not> truthy_duration (get_duration self)
         \<or> get_duration self = Some (e - s)"
  shows "\<exists>d. computed_duration self = Some d \<and> e = s + d"
proof (cases "truthy_duration (get_duration self)")
  case False
  then have "computed_duration self = Some (e - s)"
    using assms(1,2) by (simp add: computed_duration_def)
  then show ?thesis by simp
next
  case True
  then obtain d where d: "get_duration self = Some d" "d \<noteq> 0"
    by (auto simp: truthy_duration_def split: option.splits)
  have cd: "computed_duration self = Some d"
    using True d by (simp add: computed_duration_def)
  from assms(3) True have "ending self = None \<or> d = e - s"
    using d by auto
  then have "e = s + d"
  proof
    assume "ending self = None"
    then show ?thesis
      using assms(1,2) True d by (simp add: end_value_def)
  next
    assume "d = e - s"
    then show ?thesis by simp
  qed
  with cd show ?thesis by simp
qed

theorem end_is_start_plus_computed_duration_witness:
  "start event_with_duration = Some 10 \<and> end_value event_with_duration = Some 15
   \<and> ending event_with_duration = None
   \<and> (\<exists>d. computed_duration event_with_duration = Some d \<and> (15::int) = 10 + d)"
proof -
  have s: "start event_with_duration = Some 10"
    by (simp add: event_with_duration_def start_def)
  have n: "ending event_with_duration = None"
    by (simp add: event_with_duration_def init_component_def ending_def VEvent_ending_def)
  have e: "end_value event_with_duration = Some 15"
    using s n
    by (simp add: end_value_def truthy_duration_def get_duration_def VEvent_get_duration_def
        event_with_duration_def init_component_def)
  show ?thesis
    using s n e end_is_start_plus_computed_duration [of event_with_duration 10 15]
    by simp
qed

text \<open>
  An event that carries both an end property and a different explicit duration: start
  and end are resolved, and the end is not the start plus the computed duration.
\<close>

theorem computed_duration_counterexample:
  "start event_end_and_duration = Some 10
   \<and> end_value event_end_and_duration = Some 20
   \<and> computed_duration event_end_and_duration = Some 5
   \<and> the (end_value event_end_and_duration)
       \<noteq> the (start event_end_and_duration) + the (computed_duration event_end_and_duration)"
  by (simp add: event_end_and_duration_def init_component_def start_def end_value_def
      ending_def VEvent_ending_def computed_duration_def get_duration_def
      VEvent_get_duration_def truthy_duration_def)

section \<open>Journals\<close>

text \<open>
  C8: the ending of a journal is its own \<open>dtstart\<close>, hence resolves to its start, and
  its duration is always the zero duration, whatever its other properties are.
\<close>

theorem journal_ending_and_duration:
  "kind self = VJournal \<Longrightarrow>
     ending self = dtstart self
     \<and> map_option datetime_or_date_value (ending self) = start self
     \<and> get_duration self = Some 0"
  by (simp add: ending_def VJournal_ending_def get_duration_def VJournal_get_duration_def
      start_def split: option.splits)

theorem journal_ending_and_duration_witness:
  "kind journal_at_10 = VJournal
   \<and> ending journal_at_10 = Some (DT 10)
   \<and> map_option datetime_or_date_value (ending journal_at_10) = Some 10
   \<and> get_duration journal_at_10 = Some 0"
proof -
  have k: "kind journal_at_10 = VJournal"
    by (simp add: journal_at_10_def init_component_def)
  have d: "dtstart journal_at_10 = Some (DT 10)"
    by (simp add: journal_at_10_def)
  show ?thesis
    using k d journal_ending_and_duration [OF k] journal_at_10_start_end(1)
    by simp
qed

section \<open>Sub-properties\<close>

lemma str_split_not_Nil: "str_split sep s \<noteq> []"
  by (induction s) (auto split: list.splits)

lemma str_split_one:
  "str_count sep s = 1 \<Longrightarrow>
     str_split sep s = [takeWhile (\<lambda>c. c \<noteq> sep) s, drop (Suc (length (takeWhile (\<lambda>c. c \<noteq> sep) s))) s]"
proof (induction s)
  case Nil
  then show ?case by (simp add: str_count_def)
next
  case (Cons c cs)
  show ?case
  proof (cases "c = sep")
    case True
    with Cons.prems have "filter (\<lambda>c. c = sep) cs = []"
      by (simp add: str_count_def)
    then have none: "\<forall>x\<in>set cs. x \<noteq> sep"
      by (simp add: filter_empty_conv)
    have "str_split sep cs = [cs]" using none
      by (induction cs) (auto split: list.splits)
    with True show ?thesis by simp
  next
    case False
    with Cons.prems have "str_count sep cs = 1" by (simp add: str_count_def)
    from Cons.IH [OF this] False show ?thesis by simp
  qed
qed

lemma dict_comprehension_spec:
  "dict_comprehension toks d =
     Inr (\<lambda>k. case spec_sub_properties toks k of None \<Rightarrow> d k | Some v \<Rightarrow> Some v)"
proof (induction toks arbitrary: d)
  case Nil
  then show ?case by (simp add: spec_sub_properties_def)
next
  case (Cons t toks)
  show ?case
  proof (cases "str_count CHR ''='' t = 1")
    case False
    then show ?thesis
      by (simp add: Cons.IH spec_sub_properties_def)
  next
    case True
    have sp: "str_split CHR ''='' t = [key_of t, value_of t]"
      using str_split_one [OF True] by (simp add: key_of_def value_of_def)
    have "dict_comprehension (t # toks) d = dict_comprehension toks (d(key_of t \<mapsto> value_of t))"
      using True sp by (simp add: getitem_def)
    also have "\<dots> = Inr (\<lambda>k. case spec_sub_properties toks k of
                              None \<Rightarrow> (d(key_of t \<mapsto> value_of t)) k | Some v \<Rightarrow> Some v)"
      by (rule Cons.IH)
    also have "(\<lambda>k. case spec_sub_properties toks k of
                              None \<Rightarrow> (d(key_of t \<mapsto> value_of t)) k | Some v \<Rightarrow> Some v)
             = (\<lambda>k. case spec_sub_properties (t # toks) k of None \<Rightarrow> d k | Some v \<Rightarrow> Some v)"
      using True
      by (auto simp: spec_sub_properties_def fun_eq_iff split: list.splits)
    finally show ?thesis .
  qed
qed


lemma token_key_value:
  "str_count CHR ''='' t = 1 \<Longrightarrow> t = key_of t @ ''='' @ value_of t"
proof -
  assume "str_count CHR ''='' t = 1"
  then have "filter (\<lambda>c. c = CHR ''='') t \<noteq> []"
    by (auto simp: str_count_def)
  then have "\<exists>x\<in>set t. x = CHR ''=''"
    by (simp add: filter_empty_conv)
  then have "dropWhile (\<lambda>c. c \<noteq> CHR ''='') t \<noteq> []" by auto
  then obtain r where r: "dropWhile (\<lambda>c. c \<noteq> CHR ''='') t = CHR ''='' # r"
    using hd_dropWhile [of "\<lambda>c. c \<noteq> CHR ''=''" t]
    by (cases "dropWhile (\<lambda>c. c \<noteq> CHR ''='') t") auto
  have "drop (Suc (length (key_of t))) t = tl (dropWhile (\<lambda>c. c \<noteq> CHR ''='') t)"
    by (simp add: key_of_def dropWhile_eq_drop drop_Suc tl_drop)
  then have "value_of t = r" using r by (simp add: value_of_def)
  moreover have "t = key_of t @ dropWhile (\<lambda>c. c \<noteq> CHR ''='') t"
    by (simp add: key_of_def)
  ultimately show ?thesis using r by simp
qed

text \<open>
  C10: reading \<open>sub_properties\<close> never raises; the result is the dictionary that maps key
  to value for exactly the tokens between semicolons that hold exactly one \<open>=\<close>, every
  other token being dropped, and a null sub-properties string gives the empty dictionary.
\<close>

theorem sub_properties_never_raises:
  "sub_properties self = Inr (spec_sub_properties (tokens_of (prop_sub_properties self)))
   \<and> (prop_sub_properties self = None \<longrightarrow> sub_properties self = Inr Map.empty)"
proof -
  have m: "sub_properties self = Inr (spec_sub_properties (tokens_of (prop_sub_properties self)))"
  proof -
    have "(\<lambda>k. case g k of None \<Rightarrow> Map.empty k | Some v \<Rightarrow> Some v) = g"
      for g :: "string \<rightharpoonup> string"
      by (auto simp: fun_eq_iff split: option.splits)
    then show ?thesis
      by (simp add: sub_properties_def tokens_of_def dict_comprehension_spec)
  qed
  have "spec_sub_properties (tokens_of None) = Map.empty"
    by (simp add: tokens_of_def spec_sub_properties_def fun_eq_iff str_count_def)
  with m show ?thesis by auto
qed

theorem sub_properties_never_raises_witness:
  "prop_sub_properties property_none = None \<and> sub_properties property_none = Inr Map.empty
   \<and> (\<exists>d. sub_properties property_mixed = Inr d \<and> d ''a'' = Some ''h'' \<and> d ''c'' = None
          \<and> d ''d'' = None \<and> d [] = None)"
proof -
  have n: "prop_sub_properties property_none = None"
    by (simp add: property_none_def)
  have t: "tokens_of (prop_sub_properties property_mixed) = [''a=b'', ''c'', ''d=e=f'', [], ''a=h'']"
    by (simp add: property_mixed_def tokens_of_def)
  have "spec_sub_properties [''a=b'', ''c'', ''d=e=f'', [], ''a=h''] ''a'' = Some ''h''"
    "spec_sub_properties [''a=b'', ''c'', ''d=e=f'', [], ''a=h''] ''c'' = None"
    "spec_sub_properties [''a=b'', ''c'', ''d=e=f'', [], ''a=h''] ''d'' = None"
    "spec_sub_properties [''a=b'', ''c'', ''d=e=f'', [], ''a=h''] [] = None"
    by (simp_all add: spec_sub_properties_def str_count_def key_of_def value_of_def)
  note v = this
  have a: "sub_properties property_none = Inr Map.empty"
    using n sub_properties_never_raises [of property_none] by blast
  have b: "sub_properties property_mixed
             = Inr (spec_sub_properties [''a=b'', ''c'', ''d=e=f'', [], ''a=h''])"
    using t sub_properties_never_raises [of property_mixed] by simp
  from n a b v show ?thesis by blast
qed

section \<open>Expansion\<close>

lemma the_original_component:
  "d ''_original'' = Some (VRef m) \<Longrightarrow> m < length h \<Longrightarrow> h ! m = Component c \<Longrightarrow>
     the_original h d asked = Inr (m, c)"
  by (simp add: the_original_def)

lemma getattr_component:
  "a < length h \<Longrightarrow> h ! a = Component c \<Longrightarrow> getattr h a name = component_getattribute a c name"
  by (simp add: getattr_def)

lemma getattr_recurring:
  "a < length h \<Longrightarrow> h ! a = Recurring d \<Longrightarrow> getattr h a name = getattribute h a d name"
  by (simp add: getattr_def)

lemma component_start_end:
  "component_getattribute a c ''start'' = Inr (opt_val VInstant (start c))"
  "component_getattribute a c ''end'' = Inr (opt_val VInstant (end_value c))"
  "component_getattribute a c ''parent'' = Inr (opt_val VRef (u_parent c))"
  by (simp_all add: component_getattribute_def)

text \<open>
  C1: whatever the range and whatever the expansion of the rule gives, the first object
  that \<open>expand_component_in_range\<close> emits is the component itself, unchanged in the store,
  so that the first emitted pair is the component's own start and end.
\<close>

theorem expansion_emits_master_first:
  assumes "a < length h" and "h ! a = Component self"
  shows "fst (expand_component_in_range pu base h a self return_range) \<noteq> []
    \<and> hd (fst (expand_component_in_range pu base h a self return_range)) = a
    \<and> snd (expand_component_in_range pu base h a self return_range) ! a = Component self
    \<and> emitted_pair (snd (expand_component_in_range pu base h a self return_range))
        (hd (fst (expand_component_in_range pu base h a self return_range)))
      = (Inr (opt_val VInstant (start self)), Inr (opt_val VInstant (end_value self)))"
proof -
  obtain out h' where e: "expand_component_in_range pu base h a self return_range = (out, h')"
    by (cases "expand_component_in_range pu base h a self return_range")
  from e have out: "out \<noteq> []" "hd out = a"
    by (auto simp: expand_component_in_range_def Let_def)
  from e obtain news where h': "h' = h @ news"
    by (auto simp: expand_component_in_range_def Let_def)
  have at: "a < length h'" "h' ! a = Component self"
    using assms h' by (simp_all add: nth_append)
  have "emitted_pair h' a
          = (Inr (opt_val VInstant (start self)), Inr (opt_val VInstant (end_value self)))"
    by (simp add: emitted_pair_def getattr_component [OF at] component_start_end)
  with e out at show ?thesis by simp
qed

lemma expand_store_one:
  "expand_component_in_range pu_two Map.empty store_one 0 journal_at_10 (100, 200)
     = ([0, 1, 2], store_three)"
  by (simp add: expand_component_in_range_def pu_two_def store_one_def store_three_def
      upt_rec numeral_2_eq_2 numeral_3_eq_3)

theorem expansion_emits_master_first_witness:
  "0 < length store_one \<and> store_one ! 0 = Component journal_at_10
   \<and> expand_component_in_range pu_two Map.empty store_one 0 journal_at_10 (100, 200)
       = ([0, 1, 2], store_three)
   \<and> emitted_pair store_three 0 = (Inr (VInstant 10), Inr (VInstant 10))"
proof -
  have a: "0 < length store_one" "store_one ! 0 = Component journal_at_10"
    by (simp_all add: store_one_def)
  show ?thesis
    using a expansion_emits_master_first [OF a, of pu_two Map.empty "(100, 200)"]
    by (simp add: expand_store_one journal_at_10_start_end opt_val_def)
qed

lemma getattribute_forwarded:
  assumes "d ''_original'' = Some (VRef m)" and "m < length h" and "h ! m = Component c"
    and "name \<notin> set [''_start'', ''_end'', ''_original'', ''_parent'',
                       ''start'', ''end'', ''original'', ''parent'']"
    and "name \<in> set [''_name'', ''_extra_child_components'', ''_extra_properties'']
         \<or> name \<in> set (property_ical_names c)"
  shows "getattribute_with own h d name = component_getattribute m c name"
  using assms by (auto simp: getattribute_with_def the_original_def)

lemma getattribute_local:
  "getattribute h a d ''start'' = instance_dict d ''_start''"
  "getattribute h a d ''end'' = instance_dict d ''_end''"
  "getattribute h a d ''original'' = instance_dict d ''_original''"
  by (simp_all add: getattribute_def getattribute_with_def object_getattribute_def)

lemma getattribute_parent:
  assumes "d ''_original'' = Some (VRef m)" and "m < length h" and "h ! m = Component c"
  shows "getattribute h a d ''parent'' = component_getattribute m c ''parent''"
  using assms
  by (simp add: getattribute_def getattribute_with_def object_getattribute_def the_original_def)

text \<open>
  C2, as the code has it: on an occurrence whose original is a component, reading
  \<open>_name\<close>, \<open>_extra_child_components\<close>, \<open>_extra_properties\<close> or one of the original's
  property names (other than the eight names kept local) returns that attribute of the
  original; reading \<open>start\<close>, \<open>end\<close> or \<open>original\<close> returns the occurrence's own field
  \<open>_start\<close>, \<open>_end\<close> or \<open>_original\<close>; reading \<open>parent\<close> returns the parent of the
  original; every other name is resolved on the occurrence itself.
\<close>

theorem occurrence_reads:
  assumes "a < length h" and "h ! a = Recurring d"
    and "d ''_original'' = Some (VRef m)" and "m < length h" and "h ! m = Component c"
  shows "(name \<notin> set [''_start'', ''_end'', ''_original'', ''_parent'',
                        ''start'', ''end'', ''original'', ''parent'']
          \<and> (name \<in> set [''_name'', ''_extra_child_components'', ''_extra_properties'']
               \<or> name \<in> set (property_ical_names c))
          \<longrightarrow> getattr h a name = getattr h m name)
    \<and> getattr h a ''start'' = instance_dict d ''_start''
    \<and> getattr h a ''end'' = instance_dict d ''_end''
    \<and> getattr h a ''original'' = Inr (VRef m)
    \<and> getattr h a ''parent'' = Inr (opt_val VRef (u_parent c))
    \<and> getattr h a ''parent'' = getattr h m ''parent''
    \<and> (name \<notin> set [''_name'', ''_extra_child_components'', ''_extra_properties'']
          \<and> name \<notin> set (property_ical_names c)
          \<longrightarrow> getattr h a name = object_getattribute h a d name)"
proof -
  note r = getattr_recurring [OF assms(1,2)]
  note o = assms(3-5)
  note mc = getattr_component [OF assms(4,5)]
  have 1: "name \<notin> set [''_start'', ''_end'', ''_original'', ''_parent'',
                        ''start'', ''end'', ''original'', ''parent'']
          \<and> (name \<in> set [''_name'', ''_extra_child_components'', ''_extra_properties'']
               \<or> name \<in> set (property_ical_names c))
          \<longrightarrow> getattr h a name = getattr h m name"
    using getattribute_forwarded [of d m h c name "object_getattribute h a d"] o
    by (simp only: r mc getattribute_def) blast
  have 2: "getattr h a ''original'' = Inr (VRef m)"
    using assms(3) by (simp add: r getattribute_local instance_dict_def)
  have 3: "getattr h a ''parent'' = Inr (opt_val VRef (u_parent c))"
    using getattribute_parent [of d m h c a] o by (simp add: r component_start_end)
  have 4: "name \<notin> set [''_name'', ''_extra_child_components'', ''_extra_properties'']
          \<and> name \<notin> set (property_ical_names c)
          \<longrightarrow> getattr h a name = object_getattribute h a d name"
    using o by (auto simp: r getattribute_def getattribute_with_def the_original_def)
  from 1 2 3 4 show ?thesis
    by (simp add: r mc getattribute_local component_start_end)
qed

lemma store_three_at_0: "0 < length store_three" "store_three ! 0 = Component journal_at_10"
  by (simp_all add: store_three_def)

lemma store_three_at_1: "1 < length store_three" "store_three ! 1 = Recurring occurrence_20"
  by (simp_all add: store_three_def occurrence_20_def)

lemma store_three_at_2:
  "2 < length store_three"
  "store_three ! 2 = Recurring (VRecurringJournal_init Map.empty 0 30 30)"
  by (simp_all add: store_three_def)

lemma occurrence_20_fields:
  "occurrence_20 ''_original'' = Some (VRef 0)"
  "occurrence_20 ''_start'' = Some (VInstant 20)"
  "occurrence_20 ''_end'' = Some (VInstant 20)"
  "occurrence_20 ''_parent'' = Some (VRef 0)"
  by (simp_all add: occurrence_20_def VRecurringJournal_init_def)

lemma journal_at_10_fields:
  "property_ical_names journal_at_10 =
     [''dtstamp'', ''uid'', ''dtstart'', ''rrule'', ''summary'', ''exdate'', ''rdate'', ''comment'']"
  "summary journal_at_10 = Some ''diary''"
  "dtstart journal_at_10 = Some (DT 10)"
  "comment journal_at_10 = None"
  "u_parent journal_at_10 = None"
  "kind journal_at_10 = VJournal"
  "other_attributes journal_at_10 = Map.empty"
  by (simp_all add: journal_at_10_def init_component_def)

lemma journal_at_10_reads:
  "component_getattribute a journal_at_10 ''summary'' = Inr (VStr ''diary'')"
  "component_getattribute a journal_at_10 ''dtstart'' = Inr (VDt (DT 10))"
  "component_getattribute a journal_at_10 ''comment'' = Inr VNone"
  "component_getattribute a journal_at_10 ''ending'' = Inr (VDt (DT 10))"
  "component_getattribute a journal_at_10 ''_start'' = Inl (AttributeError ''_start'')"
  "component_getattribute a journal_at_10 ''timespan''
     = Inr (VTimespan a (VInstant 10) (VInstant 10))"
  by (simp_all add: component_getattribute_def component_dict_def instance_dict_def
      journal_at_10_fields opt_val_def ending_def VJournal_ending_def timespan_def
      journal_at_10_start_end)

theorem occurrence_reads_witness:
  "1 < length store_three \<and> store_three ! 1 = Recurring occurrence_20
   \<and> occurrence_20 ''_original'' = Some (VRef 0)
   \<and> 0 < length store_three \<and> store_three ! 0 = Component journal_at_10
   \<and> getattr store_three 1 ''summary'' = Inr (VStr ''diary'')
   \<and> getattr store_three 1 ''start'' = Inr (VInstant 20)
   \<and> getattr store_three 1 ''end'' = Inr (VInstant 20)
   \<and> getattr store_three 1 ''original'' = Inr (VRef 0)
   \<and> getattr store_three 1 ''parent'' = Inr VNone
   \<and> getattr store_three 1 ''_parent'' = Inr (VRef 0)"
proof -
  note a = store_three_at_1 occurrence_20_fields(1) store_three_at_0
  have m: "getattr store_three 0 ''summary'' = Inr (VStr ''diary'')"
    by (simp add: getattr_component [OF store_three_at_0] journal_at_10_reads)
  have s: "getattr store_three 1 ''summary'' = Inr (VStr ''diary'')"
    using occurrence_reads [OF a, of "''summary''"] m
    by (simp add: journal_at_10_fields)
  have p: "getattr store_three 1 ''_parent'' = Inr (VRef 0)"
    using occurrence_reads [OF a, of "''_parent''"]
    by (simp add: journal_at_10_fields object_getattribute_def instance_dict_def
        occurrence_20_fields)
  show ?thesis
    using a s p occurrence_reads [OF a, of "''summary''"]
    by (simp add: instance_dict_def occurrence_20_fields journal_at_10_fields opt_val_def)
qed

text \<open>
  The names \<open>timespan\<close> and \<open>_start\<close> are none of \<open>start\<close>, \<open>end\<close>, \<open>parent\<close>,
  \<open>original\<close>, and the occurrence answers them itself: its timespan is its own, and
  \<open>_start\<close> is a field that the original does not have.
\<close>

theorem occurrence_reads_counterexample:
  "getattr store_three 1 ''timespan'' = Inr (VTimespan 1 (VInstant 20) (VInstant 20))
   \<and> getattr store_three 0 ''timespan'' = Inr (VTimespan 0 (VInstant 10) (VInstant 10))
   \<and> getattr store_three 1 ''_start'' = Inr (VInstant 20)
   \<and> getattr store_three 0 ''_start'' = Inl (AttributeError ''_start'')"
proof -
  have o: "the_original store_three occurrence_20 ''get_property_ical_names''
             = Inr (0, journal_at_10)"
    using store_three_at_0 by (simp add: the_original_def occurrence_20_fields)
  have "getattribute store_three 1 occurrence_20 ''timespan''
          = Inr (VTimespan 1 (VInstant 20) (VInstant 20))"
    by (simp add: getattribute_def getattribute_with_def o journal_at_10_fields
        object_getattribute_def recurring_timespan_def instance_dict_def occurrence_20_fields)
  then have t: "getattr store_three 1 ''timespan''
                  = Inr (VTimespan 1 (VInstant 20) (VInstant 20))"
    by (simp only: getattr_recurring [OF store_three_at_1])
  have "getattribute store_three 1 occurrence_20 ''_start'' = Inr (VInstant 20)"
    by (simp add: getattribute_def getattribute_with_def object_getattribute_def
        instance_dict_def occurrence_20_fields)
  then have s: "getattr store_three 1 ''_start'' = Inr (VInstant 20)"
    by (simp only: getattr_recurring [OF store_three_at_1])
  have m: "getattr store_three 0 ''timespan'' = Inr (VTimespan 0 (VInstant 10) (VInstant 10))"
    "getattr store_three 0 ''_start'' = Inl (AttributeError ''_start'')"
    by (simp_all only: getattr_component [OF store_three_at_0] journal_at_10_reads)
  from t s m show ?thesis by (intro conjI)
qed

text \<open>
  Two occurrences of one component, whose property names are those of the constructor,
  are equal whatever their own fields hold.
\<close>

lemma eq_same_original:
  assumes "a < length h" and "h ! a = Recurring d"
    and "b < length h" and "h ! b = Recurring d'"
    and "d ''_original'' = Some (VRef m)" and "d' ''_original'' = Some (VRef m)"
    and "m < length h" and "h ! m = Component c"
    and "property_ical_names c =
      [''dtstamp'', ''uid'', ''dtstart'', ''rrule'', ''summary'', ''exdate'', ''rdate'', ''comment'']"
  shows "eq h a b = Inr True"
proof -
  have o: "the_original h d asked = Inr (m, c)" "the_original h d' asked = Inr (m, c)" for asked
    using assms(5-8) by (simp_all add: the_original_def)
  note nm = assms(9)
  have fw: "getattribute h x e name = component_getattribute m c name"
    if "the_original h e ''get_property_ical_names'' = Inr (m, c)"
      and "name \<in> set [''dtstart'', ''summary'', ''comment'']" for x e name
    using that by (auto simp: getattribute_def getattribute_with_def nm)
  have en: "getattribute h x e ''ending'' = component_getattribute m c ''dtstart''"
    if "the_original h e ''get_property_ical_names'' = Inr (m, c)" for x e
    using that
    by (simp add: getattribute_def getattribute_with_def nm object_getattribute_def
        read_field_def)
  have ok: "\<exists>v. component_getattribute m c name = Inr v"
    if "name \<in> set [''dtstart'', ''summary'', ''comment'']" for name
    using that by (auto simp: component_getattribute_def component_dict_def instance_dict_def)
  have q: "attr_eq h a b name = Inr True"
    if "name \<in> set [''dtstart'', ''summary'', ''comment'']" for name
    using ok [OF that] fw [OF o(1) that, of a] fw [OF o(2) that, of b]
    by (auto simp: attr_eq_def getattr_recurring [OF assms(1,2)] getattr_recurring [OF assms(3,4)])
  have qe: "attr_eq h a b ''ending'' = Inr True"
    using ok [of "''dtstart''"] en [OF o(1), of a] en [OF o(2), of b]
    by (auto simp: attr_eq_def getattr_recurring [OF assms(1,2)] getattr_recurring [OF assms(3,4)])
  have t: "type_of (h ! a) = type_of (h ! b)"
    by (simp add: assms(2,4) type_of_def)
  show ?thesis
    using assms(1,3) t q [of "''dtstart''"] q [of "''summary''"] q [of "''comment''"] qe
    by (simp add: eq_def and_then_def)
qed

lemma occurrence_of_journal_reads:
  assumes "d ''_original'' = Some (VRef 0)"
  shows "getattribute store_three a d ''dtstart'' = Inr (VDt (DT 10))"
    "getattribute store_three a d ''ending'' = Inr (VDt (DT 10))"
    "getattribute store_three a d ''summary'' = Inr (VStr ''diary'')"
    "getattribute store_three a d ''comment'' = Inr VNone"
proof -
  have o: "the_original store_three d asked = Inr (0, journal_at_10)" for asked
    using assms store_three_at_0 by (simp add: the_original_def)
  show "getattribute store_three a d ''dtstart'' = Inr (VDt (DT 10))"
    "getattribute store_three a d ''summary'' = Inr (VStr ''diary'')"
    "getattribute store_three a d ''comment'' = Inr VNone"
    by (simp_all add: getattribute_def getattribute_with_def o journal_at_10_fields
        journal_at_10_reads)
  show "getattribute store_three a d ''ending'' = Inr (VDt (DT 10))"
    by (simp add: getattribute_def getattribute_with_def o journal_at_10_fields
        object_getattribute_def read_field_def journal_at_10_reads)
qed

text \<open>
  C5 at two occurrences of one journal, the first from 20 to 20 and the second from 30
  to 30: both are of the recurring journal class, their starts and ends differ, and
  \<open>__eq__\<close> answers \<open>True\<close>, because \<open>dtstart\<close>, \<open>ending\<close>, \<open>summary\<close> and \<open>comment\<close> are
  all read from the original.
\<close>

theorem eq_ignores_occurrence_start_end:
  "eq store_three 1 2 = Inr True
   \<and> getattr store_three 1 ''start'' = Inr (VInstant 20)
   \<and> getattr store_three 2 ''start'' = Inr (VInstant 30)
   \<and> getattr store_three 1 ''end'' = Inr (VInstant 20)
   \<and> getattr store_three 2 ''end'' = Inr (VInstant 30)"
proof -
  let ?d2 = "VRecurringJournal_init Map.empty 0 30 30"
  have o2: "?d2 ''_original'' = Some (VRef 0)"
    by (simp add: VRecurringJournal_init_def)
  note r1 = getattr_recurring [OF store_three_at_1]
  note r2 = getattr_recurring [OF store_three_at_2]
  note v1 = occurrence_of_journal_reads [of occurrence_20 1, OF occurrence_20_fields(1)]
  note v2 = occurrence_of_journal_reads [of ?d2 2, OF o2]
  have q: "attr_eq store_three 1 2 ''dtstart'' = Inr True"
    "attr_eq store_three 1 2 ''ending'' = Inr True"
    "attr_eq store_three 1 2 ''summary'' = Inr True"
    "attr_eq store_three 1 2 ''comment'' = Inr True"
    by (simp_all only: attr_eq_def r1 r2 v1 v2 sum.case simp_thms)
  have t: "type_of (store_three ! 1) = type_of (store_three ! 2)"
    by (simp only: store_three_at_1 store_three_at_2 type_of_def obj.case)
  have e: "eq store_three 1 2 = Inr True"
    using store_three_at_1(1) store_three_at_2(1) t
    by (simp only: eq_def q and_then_def sum.case if_True simp_thms if_False)
  have s: "getattr store_three 1 ''start'' = Inr (VInstant 20)"
    "getattr store_three 1 ''end'' = Inr (VInstant 20)"
    by (simp_all only: r1 getattribute_local instance_dict_def occurrence_20_fields option.case)
  have s2: "getattr store_three 2 ''start'' = Inr (VInstant 30)"
    "getattr store_three 2 ''end'' = Inr (VInstant 30)"
    by (simp_all add: r2 getattribute_local instance_dict_def VRecurringJournal_init_def)
  from e s s2 show ?thesis by (intro conjI)
qed

lemma setattr_dict_original:
  assumes "setattr_dict d key v = Inr d'" and "key \<noteq> ''_original''"
  shows "d' ''_original'' = d ''_original''"
  using assms by (simp add: setattr_dict_def split: if_splits) auto

lemma setattr_dict_stored:
  assumes "setattr_dict d key v = Inr d'" and "key \<noteq> ''dtstamp''" and "key \<noteq> ''uid''"
  shows "d' key = Some v"
    and "key \<notin> set [''start'', ''end'', ''original'', ''parent'', ''ending'', ''timespan'',
                       ''computed_duration'']"
  using assms by (auto simp: setattr_dict_def split: if_splits)

lemma object_getattribute_plain:
  "name \<notin> set [''start'', ''end'', ''original'', ''parent'', ''dtstamp'', ''uid'', ''ending'',
                    ''timespan'', ''computed_duration'']
   \<Longrightarrow> object_getattribute h a d name = instance_dict d name"
  by (simp add: object_getattribute_def)

lemma getattribute_with_local:
  "name \<in> set [''_start'', ''_end'', ''_original'', ''_parent'']
   \<Longrightarrow> getattribute_with own h d name = own name"
  by (auto simp: getattribute_with_def)

lemma getattribute_with_own:
  "the_original h d ''get_property_ical_names'' = Inr (m, c) \<Longrightarrow>
   name \<notin> set [''_name'', ''_extra_child_components'', ''_extra_properties''] \<Longrightarrow>
   name \<notin> set (property_ical_names c) \<Longrightarrow>
   getattribute_with own h d name = own name"
  by (simp add: getattribute_with_def)

lemma setattr_recurring:
  assumes "a < length h" and "h ! a = Recurring d" and "setattr h a key v = Inr h'"
  obtains d' where "setattr_dict d key v = Inr d'" and "h' = h[a := Recurring d']"
  using assms by (auto simp: setattr_def split: sum.splits)

lemma occurrence_write_parts:
  assumes "a < length h" and "h ! a = Recurring d"
    and "d ''_original'' = Some (VRef m)" and "m < length h" and "h ! m = Component c"
    and "setattr h a key v = Inr h'"
  shows "length h' = length h"
    and "\<forall>b. b \<noteq> a \<longrightarrow> h' ! b = h ! b"
    and "h' ! m = Component c"
    and "key \<in> set [''_start'', ''_end'', ''_original'', ''_parent'']
         \<or> (key \<notin> set [''_name'', ''_extra_child_components'', ''_extra_properties'',
                          ''dtstamp'', ''uid'']
             \<and> key \<notin> set (property_ical_names c))
         \<longrightarrow> getattr h' a key = Inr v"
    and "key \<notin> set [''_start'', ''_end'', ''_original'', ''_parent'']
         \<and> (key \<in> set [''_name'', ''_extra_child_components'', ''_extra_properties'']
              \<or> key \<in> set (property_ical_names c))
         \<longrightarrow> getattr h' a key = getattr h m key"
proof -
  from assms(1,2,6) obtain d' where
    sd: "setattr_dict d key v = Inr d'" and h': "h' = h[a := Recurring d']"
    by (rule setattr_recurring)
  have ma: "m \<noteq> a" using assms(2,5) by auto
  show len: "length h' = length h" by (simp add: h')
  show "\<forall>b. b \<noteq> a \<longrightarrow> h' ! b = h ! b" by (simp add: h')
  show hm: "h' ! m = Component c" using ma assms(5) by (simp add: h')
  have at: "a < length h'" "h' ! a = Recurring d'"
    using assms(1) by (simp_all add: h')
  have m': "m < length h'" using assms(4) len by simp
  note r = getattr_recurring [OF at]
  show "key \<in> set [''_start'', ''_end'', ''_original'', ''_parent'']
         \<or> (key \<notin> set [''_name'', ''_extra_child_components'', ''_extra_properties'',
                          ''dtstamp'', ''uid'']
             \<and> key \<notin> set (property_ical_names c))
         \<longrightarrow> getattr h' a key = Inr v"
  proof
    assume k: "key \<in> set [''_start'', ''_end'', ''_original'', ''_parent'']
         \<or> (key \<notin> set [''_name'', ''_extra_child_components'', ''_extra_properties'',
                          ''dtstamp'', ''uid'']
             \<and> key \<notin> set (property_ical_names c))"
    then have nk: "key \<noteq> ''dtstamp''" "key \<noteq> ''uid''" by auto
    note st = setattr_dict_stored [OF sd nk]
    have "key \<notin> set [''start'', ''end'', ''original'', ''parent'', ''dtstamp'', ''uid'',
                       ''ending'', ''timespan'', ''computed_duration'']"
      using st(2) nk by simp
    then have "object_getattribute h' a d' key = instance_dict d' key"
      by (rule object_getattribute_plain)
    then have own: "object_getattribute h' a d' key = Inr v"
      by (simp add: instance_dict_def st(1))
    from k show "getattr h' a key = Inr v"
    proof
      assume "key \<in> set [''_start'', ''_end'', ''_original'', ''_parent'']"
      then have "getattribute h' a d' key = object_getattribute h' a d' key"
        unfolding getattribute_def by (rule getattribute_with_local)
      then show ?thesis by (simp only: r own)
    next
      assume k2: "key \<notin> set [''_name'', ''_extra_child_components'', ''_extra_properties'',
                          ''dtstamp'', ''uid'']
             \<and> key \<notin> set (property_ical_names c)"
      then have k3: "key \<notin> set [''_name'', ''_extra_child_components'', ''_extra_properties'']"
        and k4: "key \<notin> set (property_ical_names c)"
        by simp_all
      show ?thesis
      proof (cases "key = ''_original''")
        case True
        then have "key \<in> set [''_start'', ''_end'', ''_original'', ''_parent'']"
          by simp
        then have "getattribute h' a d' key = object_getattribute h' a d' key"
          unfolding getattribute_def by (rule getattribute_with_local)
        then show ?thesis by (simp only: r own)
      next
        case False
        have "d' ''_original'' = Some (VRef m)"
          using setattr_dict_original [OF sd False] assms(3) by simp
        then have "the_original h' d' ''get_property_ical_names'' = Inr (m, c)"
          using m' hm by (simp add: the_original_def)
        then have "getattribute h' a d' key = object_getattribute h' a d' key"
          unfolding getattribute_def using k3 k4 by (rule getattribute_with_own)
        then show ?thesis by (simp only: r own)
      qed
    qed
  qed
  show "key \<notin> set [''_start'', ''_end'', ''_original'', ''_parent'']
         \<and> (key \<in> set [''_name'', ''_extra_child_components'', ''_extra_properties'']
              \<or> key \<in> set (property_ical_names c))
         \<longrightarrow> getattr h' a key = getattr h m key"
  proof
    assume k: "key \<notin> set [''_start'', ''_end'', ''_original'', ''_parent'']
         \<and> (key \<in> set [''_name'', ''_extra_child_components'', ''_extra_properties'']
              \<or> key \<in> set (property_ical_names c))"
    then have "key \<noteq> ''_original''" by auto
    then have o: "d' ''_original'' = Some (VRef m)"
      using setattr_dict_original [OF sd] assms(3) by simp
    have ns: "key \<notin> set [''start'', ''end'', ''original'', ''parent'']"
      using sd by (simp add: setattr_dict_def split: if_splits)
    from k ns have k8: "key \<notin> set [''_start'', ''_end'', ''_original'', ''_parent'',
                                   ''start'', ''end'', ''original'', ''parent'']"
      by simp
    from k have kf: "key \<in> set [''_name'', ''_extra_child_components'', ''_extra_properties'']
              \<or> key \<in> set (property_ical_names c)"
      by (rule conjunct2)
    have "getattribute h' a d' key = component_getattribute m c key"
      unfolding getattribute_def
      by (rule getattribute_forwarded [of d' m h' c key, OF o m' hm k8 kf])
    then show "getattr h' a key = getattr h m key"
      by (simp add: r getattr_component [OF assms(4,5)])
  qed
qed

text \<open>
  C9, as the code has it. A write on an occurrence that succeeds leaves every other
  object of the store as it was, the original among them. A later read of the key
  returns the written value if the key is one of \<open>_start\<close>, \<open>_end\<close>, \<open>_original\<close>,
  \<open>_parent\<close>, or if it is none of \<open>_name\<close>, \<open>_extra_child_components\<close>,
  \<open>_extra_properties\<close>, \<open>dtstamp\<close>, \<open>uid\<close> and none of the original's property names.
  For a key that reads forward to the original, the later read still returns the
  original's attribute.
\<close>

theorem occurrence_write:
  assumes "a < length h" and "h ! a = Recurring d"
    and "d ''_original'' = Some (VRef m)" and "m < length h" and "h ! m = Component c"
    and "setattr h a key v = Inr h'"
  shows "length h' = length h
    \<and> (\<forall>b. b \<noteq> a \<longrightarrow> h' ! b = h ! b)
    \<and> h' ! m = Component c
    \<and> (key \<in> set [''_start'', ''_end'', ''_original'', ''_parent'']
         \<or> (key \<notin> set [''_name'', ''_extra_child_components'', ''_extra_properties'',
                          ''dtstamp'', ''uid'']
             \<and> key \<notin> set (property_ical_names c))
         \<longrightarrow> getattr h' a key = Inr v)
    \<and> (key \<notin> set [''_start'', ''_end'', ''_original'', ''_parent'']
         \<and> (key \<in> set [''_name'', ''_extra_child_components'', ''_extra_properties'']
              \<or> key \<in> set (property_ical_names c))
         \<longrightarrow> getattr h' a key = getattr h m key)"
  using occurrence_write_parts [of a h d m c key v h', OF assms]
  by (intro conjI)

lemma setattr_store_three:
  "setattr store_three 1 ''summary'' (VStr ''changed'') = Inr store_written"
  "setattr store_three 1 ''note'' (VStr ''mine'') = Inr store_private"
  using store_three_at_1
  by (simp_all add: setattr_def setattr_dict_def store_written_def store_private_def)

theorem occurrence_write_witness:
  "1 < length store_three \<and> store_three ! 1 = Recurring occurrence_20
   \<and> occurrence_20 ''_original'' = Some (VRef 0)
   \<and> 0 < length store_three \<and> store_three ! 0 = Component journal_at_10
   \<and> setattr store_three 1 ''note'' (VStr ''mine'') = Inr store_private
   \<and> store_private ! 0 = Component journal_at_10
   \<and> getattr store_private 1 ''note'' = Inr (VStr ''mine'')
   \<and> setattr store_three 1 ''summary'' (VStr ''changed'') = Inr store_written
   \<and> store_written ! 0 = Component journal_at_10
   \<and> getattr store_written 1 ''summary'' = getattr store_three 0 ''summary''"
proof -
  note a = store_three_at_1 occurrence_20_fields(1) store_three_at_0
  have n: "store_private ! 0 = Component journal_at_10
           \<and> getattr store_private 1 ''note'' = Inr (VStr ''mine'')"
    using occurrence_write [OF a setattr_store_three(2)]
    by (simp add: journal_at_10_fields)
  have s: "store_written ! 0 = Component journal_at_10
           \<and> getattr store_written 1 ''summary'' = getattr store_three 0 ''summary''"
    using occurrence_write [OF a setattr_store_three(1)]
    by (simp add: journal_at_10_fields)
  from a n s setattr_store_three show ?thesis by (intro conjI) simp_all
qed

text \<open>
  A write of \<open>summary\<close> on an occurrence succeeds and is stored in the occurrence, yet
  the next read of \<open>summary\<close> on that occurrence returns the summary of the original,
  not the written value.
\<close>

theorem occurrence_write_counterexample:
  "setattr store_three 1 ''summary'' (VStr ''changed'') = Inr store_written
   \<and> getattr store_written 1 ''summary'' = Inr (VStr ''diary'')
   \<and> getattr store_written 1 ''summary'' \<noteq> Inr (VStr ''changed'')"
proof -
  let ?d = "occurrence_20(''summary'' \<mapsto> VStr ''changed'')"
  have at: "1 < length store_written" "store_written ! 1 = Recurring ?d"
    using store_three_at_1 by (simp_all add: store_written_def)
  have m: "0 < length store_written" "store_written ! 0 = Component journal_at_10"
    using store_three_at_0 by (simp_all add: store_written_def)
  have o: "the_original store_written ?d ''get_property_ical_names'' = Inr (0, journal_at_10)"
    using m by (simp add: the_original_def occurrence_20_fields)
  have "getattribute store_written 1 ?d ''summary'' = Inr (VStr ''diary'')"
    by (simp add: getattribute_def getattribute_with_def o journal_at_10_fields
        journal_at_10_reads)
  then have "getattr store_written 1 ''summary'' = Inr (VStr ''diary'')"
    by (simp only: getattr_recurring [OF at])
  then show ?thesis
    using setattr_store_three(1) by simp
qed

end
